theory Spec2Isabelle
  imports Complex_Main "HOL-Library.Word"
begin

section \<open>Numbers\<close>

text \<open>
  The program is TypeScript running on the Web Audio API
  (\<^verbatim>\<open>src/src/components/SpectrumAnalyzer.tsx\<close>, which holds the classes
  \<^verbatim>\<open>AudioProcessor\<close> and \<^verbatim>\<open>WaveformVisualizer\<close>).
  A JavaScript \<^verbatim>\<open>number\<close> that is finite is modelled as a \<^typ>\<open>real\<close>: the rounding of
  IEEE doubles (and of the \<^verbatim>\<open>Float32Array\<close> the waveform is stored in) is not modelled.
  What is modelled is the place where JavaScript arithmetic leaves the finite numbers: a
  division by zero does not raise, it yields \<^verbatim>\<open>NaN\<close> or an infinity. The result of a
  division is therefore a \<open>jsnum\<close>.
\<close>

datatype jsnum = Fin real | PInf | NInf | NaN

definition js_div :: "real \<Rightarrow> real \<Rightarrow> jsnum" where
  "js_div x y =
     (if y = 0 then (if x = 0 then NaN else if 0 < x then PInf else NInf)
      else Fin (x / y))"

text \<open>\<^verbatim>\<open>v / 255 * 100\<close> on a value that may already be non-finite.\<close>

definition js_percent_of_255 :: "jsnum \<Rightarrow> jsnum" where
  "js_percent_of_255 v = (case v of Fin m \<Rightarrow> Fin (m / 255 * 100) | PInf \<Rightarrow> PInf | NInf \<Rightarrow> NInf | NaN \<Rightarrow> NaN)"

definition is_finite :: "jsnum \<Rightarrow> bool" where
  "is_finite v = (case v of Fin _ \<Rightarrow> True | _ \<Rightarrow> False)"

section \<open>Data model\<close>

text \<open>The \<^verbatim>\<open>settings\<close> member of \<^verbatim>\<open>AudioProcessorProps\<close>.\<close>

record Settings =
  bassBoost :: real
  lowFreq :: real
  midFreq :: real
  highFreq :: real
  saturation :: real
  compression :: real
  gain :: real
  enabled :: bool

text \<open>
  The Web Audio nodes, each reduced to the attributes the class reads or writes. A node that
  the platform creates starts with the platform's defaults (\<open>default_biquad\<close> and so on).
\<close>

datatype BiquadFilterType = lowpass | lowshelf | peaking

record BiquadFilterNode =
  filter_type :: BiquadFilterType
  filter_frequency :: real
  filter_gain :: real

record GainNode =
  gain_value :: real

record DynamicsCompressorNode =
  threshold :: real
  knee :: real
  ratio :: real
  attack :: real
  release :: real

record AnalyserNode =
  fftSize :: nat
  smoothingTimeConstant :: real

text \<open>
  A decoded \<^verbatim>\<open>AudioBuffer\<close>. It has at least one channel and every channel has
  \<^verbatim>\<open>length\<close> frames, so \<^verbatim>\<open>audioBuffer.length\<close> is the length of
  \<^verbatim>\<open>getChannelData(0)\<close>.
\<close>

record AudioBuffer =
  sampleRate :: real
  channel0 :: "real list"
  other_channels :: "real list list"

definition buffer_length :: "AudioBuffer \<Rightarrow> nat" where
  "buffer_length b = length (channel0 b)"

text \<open>
  An \<^verbatim>\<open>AudioBufferSourceNode\<close> after \<^verbatim>\<open>start(0, offset)\<close>: the buffer it
  plays and the offset (seconds into the buffer) at which it was started.
\<close>

record AudioBufferSourceNode =
  source_buffer :: AudioBuffer
  source_offset :: real

datatype AudioContext = Running | Closed

record AudioProcessor =
  audioContext :: "AudioContext option"
  sourceNode :: "AudioBufferSourceNode option"
  gainNode :: "GainNode option"
  bassBoostFilter :: "BiquadFilterNode option"
  lowFilter :: "BiquadFilterNode option"
  midFilter :: "BiquadFilterNode option"
  highFilter :: "BiquadFilterNode option"
  compressor :: "DynamicsCompressorNode option"
  analyser :: "AnalyserNode option"
  audioBuffer :: "AudioBuffer option"
  startTime :: real
  pausedAt :: real
  isInitialized :: bool

datatype js_error = InitError | LoadError | TypeError

text \<open>The field initialisers of the class.\<close>

definition new_AudioProcessor :: AudioProcessor where
  "new_AudioProcessor =
     \<lparr> audioContext = None, sourceNode = None, gainNode = None, bassBoostFilter = None,
       lowFilter = None, midFilter = None, highFilter = None, compressor = None,
       analyser = None, audioBuffer = None, startTime = 0, pausedAt = 0,
       isInitialized = False \<rparr>"

definition default_biquad :: BiquadFilterNode where
  "default_biquad = \<lparr> filter_type = lowpass, filter_frequency = 350, filter_gain = 0 \<rparr>"

definition default_gain :: GainNode where
  "default_gain = \<lparr> gain_value = 1 \<rparr>"

definition default_compressor :: DynamicsCompressorNode where
  "default_compressor =
     \<lparr> threshold = - 24, knee = 30, ratio = 12, attack = 0.003, release = 0.25 \<rparr>"

definition default_analyser :: AnalyserNode where
  "default_analyser = \<lparr> fftSize = 2048, smoothingTimeConstant = 0.8 \<rparr>"

section \<open>AudioProcessor\<close>

subsection \<open>initialize and loadAudioFile\<close>

text \<open>
  \<^verbatim>\<open>initialize()\<close>. The argument \<open>ok\<close> is the environment's answer: whether the
  \<^verbatim>\<open>AudioContext\<close> constructor succeeds. When it throws, nothing has been assigned yet
  and the error is rethrown. The node factories and the attribute writes that follow do not
  throw.
\<close>

definition initialize :: "bool \<Rightarrow> AudioProcessor \<Rightarrow> js_error + AudioProcessor" where
  "initialize ok p =
     (if isInitialized p then Inr p
      else if \<not> ok then Inl InitError
      else Inr (p\<lparr> audioContext := Some Running,
                   gainNode := Some default_gain,
                   bassBoostFilter := Some (default_biquad\<lparr> filter_type := lowshelf, filter_frequency := 100 \<rparr>),
                   lowFilter := Some (default_biquad\<lparr> filter_type := peaking, filter_frequency := 100 \<rparr>),
                   midFilter := Some (default_biquad\<lparr> filter_type := peaking, filter_frequency := 1000 \<rparr>),
                   highFilter := Some (default_biquad\<lparr> filter_type := peaking, filter_frequency := 3000 \<rparr>),
                   compressor := Some (default_compressor\<lparr> threshold := - 24, knee := 30, ratio := 12,
                                                          attack := 0.003, release := 0.25 \<rparr>),
                   analyser := Some (default_analyser\<lparr> fftSize := 2048, smoothingTimeConstant := 0.8 \<rparr>),
                   isInitialized := True \<rparr>))"

text \<open>
  \<^verbatim>\<open>loadAudioFile(file)\<close>. \<open>decoded\<close> is the outcome of reading and decoding the
  file: \<open>None\<close> when either promise rejects, in which case the method throws and
  \<^verbatim>\<open>audioBuffer\<close> keeps its value. (The state after that throw is the one after the
  inner \<^verbatim>\<open>initialize()\<close>, which \<open>initialize\<close> gives by itself.)
\<close>

definition loadAudioFile :: "bool \<Rightarrow> AudioBuffer option \<Rightarrow> AudioProcessor \<Rightarrow> js_error + AudioProcessor" where
  "loadAudioFile ok decoded p =
     (case (if audioContext p = None then initialize ok p else Inr p) of
        Inl e \<Rightarrow> Inl e
      | Inr p1 \<Rightarrow>
          (case decoded of
             None \<Rightarrow> Inl LoadError
           | Some b \<Rightarrow> Inr (p1\<lparr> audioBuffer := Some b \<rparr>)))"

subsection \<open>Transport\<close>

definition stop :: "AudioProcessor \<Rightarrow> AudioProcessor" where
  "stop p =
     (let p1 = (if sourceNode p \<noteq> None then p\<lparr> sourceNode := None \<rparr> else p)
      in p1\<lparr> startTime := 0, pausedAt := 0 \<rparr>)"

text \<open>
  \<^verbatim>\<open>play()\<close>; \<open>now\<close> is \<^verbatim>\<open>audioContext.currentTime\<close> as read by the call. The
  \<^verbatim>\<open>connect\<close> chain dereferences the six stage nodes through non-null assertions; on
  a null node the platform throws a \<^verbatim>\<open>TypeError\<close>.
\<close>

definition play :: "real \<Rightarrow> AudioProcessor \<Rightarrow> js_error + AudioProcessor" where
  "play now p =
     (if audioContext p = None \<or> audioBuffer p = None then Inr p
      else
        let p1 = stop p in
        if bassBoostFilter p1 = None \<or> lowFilter p1 = None \<or> midFilter p1 = None \<or>
           highFilter p1 = None \<or> compressor p1 = None \<or> gainNode p1 = None \<or> analyser p1 = None
        then Inl TypeError
        else
          let offset = (if pausedAt p1 \<noteq> 0 then pausedAt p1 else 0) in
          Inr (p1\<lparr> sourceNode := Some \<lparr> source_buffer = the (audioBuffer p1), source_offset = offset \<rparr>,
                     startTime := now - offset,
                     pausedAt := 0 \<rparr>))"

definition pause :: "real \<Rightarrow> AudioProcessor \<Rightarrow> AudioProcessor" where
  "pause now p =
     (if audioContext p = None \<or> sourceNode p = None then p
      else p\<lparr> pausedAt := now - startTime p, sourceNode := None \<rparr>)"

definition getCurrentTime :: "real \<Rightarrow> AudioProcessor \<Rightarrow> real" where
  "getCurrentTime now p = (if audioContext p = None then 0 else now - startTime p)"

definition isPlaying :: "AudioProcessor \<Rightarrow> bool" where
  "isPlaying p = (sourceNode p \<noteq> None)"

definition destroy :: "AudioProcessor \<Rightarrow> AudioProcessor" where
  "destroy p =
     (let p1 = stop p
      in if audioContext p1 \<noteq> None then p1\<lparr> audioContext := Some Closed \<rparr> else p1)"

subsection \<open>updateSettings\<close>

text \<open>
  The six guarded assignments of \<^verbatim>\<open>updateSettings\<close>, in the order of the source;
  each writes one attribute of one node when that node exists.

  The attributes written are \<^verbatim>\<open>AudioParam\<close>s: an assignment to \<^verbatim>\<open>.value\<close>
  outside the parameter's nominal range is brought to the nearest bound by the platform.
  For \<^verbatim>\<open>DynamicsCompressorNode.ratio\<close> the range is \<open>[1, 20]\<close>, which the mapping
  leaves as soon as \<open>compression\<close> leaves \<open>[0, 100]\<close>, so that write goes through
  \<open>audioParam_clamp 1 20\<close>. The ranges of the other parameters written here are not
  modelled: \<^verbatim>\<open>GainNode.gain\<close> ranges over every single-precision float and
  \<^verbatim>\<open>BiquadFilterNode.gain\<close> up to about 1541, which the mapping reaches only for settings
  beyond 3000. The values \<^verbatim>\<open>initialize()\<close> writes lie within their ranges.
\<close>

definition audioParam_clamp :: "real \<Rightarrow> real \<Rightarrow> real \<Rightarrow> real" where
  "audioParam_clamp lo hi v = max lo (min hi v)"

definition update_gain :: "Settings \<Rightarrow> AudioProcessor \<Rightarrow> AudioProcessor" where
  "update_gain settings p =
     (case gainNode p of None \<Rightarrow> p
      | Some n \<Rightarrow> p\<lparr> gainNode := Some (n\<lparr> gain_value := gain settings / 100 \<rparr>) \<rparr>)"

definition update_bassBoost :: "Settings \<Rightarrow> AudioProcessor \<Rightarrow> AudioProcessor" where
  "update_bassBoost settings p =
     (case bassBoostFilter p of None \<Rightarrow> p
      | Some n \<Rightarrow> p\<lparr> bassBoostFilter := Some (n\<lparr> filter_gain := (bassBoost settings - 50) * 0.5 \<rparr>) \<rparr>)"

definition update_low :: "Settings \<Rightarrow> AudioProcessor \<Rightarrow> AudioProcessor" where
  "update_low settings p =
     (case lowFilter p of None \<Rightarrow> p
      | Some n \<Rightarrow> p\<lparr> lowFilter := Some (n\<lparr> filter_gain := (lowFreq settings - 50) * 0.48 \<rparr>) \<rparr>)"

definition update_mid :: "Settings \<Rightarrow> AudioProcessor \<Rightarrow> AudioProcessor" where
  "update_mid settings p =
     (case midFilter p of None \<Rightarrow> p
      | Some n \<Rightarrow> p\<lparr> midFilter := Some (n\<lparr> filter_gain := (midFreq settings - 50) * 0.48 \<rparr>) \<rparr>)"

definition update_high :: "Settings \<Rightarrow> AudioProcessor \<Rightarrow> AudioProcessor" where
  "update_high settings p =
     (case highFilter p of None \<Rightarrow> p
      | Some n \<Rightarrow> p\<lparr> highFilter := Some (n\<lparr> filter_gain := (highFreq settings - 50) * 0.48 \<rparr>) \<rparr>)"

definition update_compressor :: "Settings \<Rightarrow> AudioProcessor \<Rightarrow> AudioProcessor" where
  "update_compressor settings p =
     (case compressor p of None \<Rightarrow> p
      | Some n \<Rightarrow>
          p\<lparr> compressor :=
               Some (n\<lparr> ratio := audioParam_clamp 1 20 (1 + (compression settings / 100) * 19) \<rparr>) \<rparr>)"

definition updateSettings :: "Settings \<Rightarrow> AudioProcessor \<Rightarrow> AudioProcessor" where
  "updateSettings settings p =
     (if \<not> isInitialized p then p
      else update_compressor settings (update_high settings (update_mid settings
             (update_low settings (update_bassBoost settings (update_gain settings p))))))"

subsection \<open>Metering\<close>

text \<open>
  \<^verbatim>\<open>analyser.frequencyBinCount\<close> is half the FFT size. \<^verbatim>\<open>new Uint8Array(n)\<close> is
  \<open>n\<close> zero bytes. \<^verbatim>\<open>getByteFrequencyData(array)\<close> copies the analyser's current
  spectrum frame (the argument \<open>frame\<close>, supplied by the platform) into the array:
  bins beyond the array are dropped, array elements beyond the frame stay as they are.
\<close>

definition frequencyBinCount :: "AnalyserNode \<Rightarrow> nat" where
  "frequencyBinCount a = fftSize a div 2"

definition new_Uint8Array :: "nat \<Rightarrow> 8 word list" where
  "new_Uint8Array n = replicate n 0"

definition getByteFrequencyData :: "8 word list \<Rightarrow> 8 word list \<Rightarrow> 8 word list" where
  "getByteFrequencyData frame array = take (length array) frame @ drop (length frame) array"

definition getAnalyserData :: "8 word list \<Rightarrow> AudioProcessor \<Rightarrow> 8 word list option" where
  "getAnalyserData frame p =
     (case analyser p of None \<Rightarrow> None
      | Some a \<Rightarrow> Some (getByteFrequencyData frame (new_Uint8Array (frequencyBinCount a))))"

text \<open>The summation loop of \<^verbatim>\<open>getLevel\<close>, from index \<open>i\<close> with the running sum.\<close>

function level_loop :: "8 word list \<Rightarrow> nat \<Rightarrow> real \<Rightarrow> real" where
  "level_loop dataArray i acc =
     (if i < length dataArray then level_loop dataArray (i + 1) (acc + real (unat (dataArray ! i)))
      else acc)"
  by pat_completeness auto
termination
  by (relation "measure (\<lambda>(dataArray, i, acc). length dataArray - i)") auto

definition getLevel :: "8 word list \<Rightarrow> AudioProcessor \<Rightarrow> jsnum" where
  "getLevel frame p =
     (case analyser p of None \<Rightarrow> Fin 0
      | Some a \<Rightarrow>
          let dataArray = getByteFrequencyData frame (new_Uint8Array (frequencyBinCount a));
              acc = level_loop dataArray 0 0
          in js_percent_of_255 (js_div acc (real (length dataArray))))"

section \<open>WaveformVisualizer.generateWaveform\<close>

text \<open>
  The inner loop over \<open>j\<close> accumulates \<^verbatim>\<open>Math.abs\<close> of the samples of block \<open>i\<close>;
  the outer loop over \<open>i\<close> stores \<^verbatim>\<open>sum / blockSize\<close> into \<^verbatim>\<open>waveData[i]\<close>.
  \<^verbatim>\<open>Math.floor(audioBuffer.length / samples)\<close> of two natural numbers is \<open>div\<close>.
\<close>

function block_loop :: "AudioBuffer \<Rightarrow> nat \<Rightarrow> nat \<Rightarrow> nat \<Rightarrow> real \<Rightarrow> real" where
  "block_loop buf blockSize i j acc =
     (if j < blockSize then
        (let sampleIndex = i * blockSize + j
         in block_loop buf blockSize i (j + 1)
              (if sampleIndex < buffer_length buf
               then acc + \<bar>channel0 buf ! sampleIndex\<bar> else acc))
      else acc)"
  by pat_completeness auto
termination
  by (relation "measure (\<lambda>(buf, blockSize, i, j, acc). blockSize - j)") auto

function wave_loop :: "AudioBuffer \<Rightarrow> nat \<Rightarrow> nat \<Rightarrow> nat \<Rightarrow> jsnum list \<Rightarrow> jsnum list" where
  "wave_loop buf samples blockSize i waveData =
     (if i < samples then
        wave_loop buf samples blockSize (i + 1)
          (waveData[i := js_div (block_loop buf blockSize i 0 0) (real blockSize)])
      else waveData)"
  by pat_completeness auto
termination
  by (relation "measure (\<lambda>(buf, samples, blockSize, i, waveData). samples - i)") auto

definition generateWaveform :: "AudioBuffer \<Rightarrow> jsnum list" where
  "generateWaveform buf =
     (let samples = 800;
          blockSize = buffer_length buf div samples;
          waveData = replicate samples (Fin 0)
      in wave_loop buf samples blockSize 0 waveData)"

section \<open>Reachable processor states\<close>

text \<open>
  The states an \<^verbatim>\<open>AudioProcessor\<close> can be in: those obtained from a fresh object by
  calls of its methods, each call running to completion. A call that throws leaves no new
  state here (see \<open>loadAudioFile\<close> for the one case where it would not be the old one).
\<close>

inductive reachable :: "AudioProcessor \<Rightarrow> bool" where
  reach_new: "reachable new_AudioProcessor"
| reach_initialize: "reachable p \<Longrightarrow> initialize ok p = Inr p' \<Longrightarrow> reachable p'"
| reach_loadAudioFile: "reachable p \<Longrightarrow> loadAudioFile ok decoded p = Inr p' \<Longrightarrow> reachable p'"
| reach_play: "reachable p \<Longrightarrow> play now p = Inr p' \<Longrightarrow> reachable p'"
| reach_pause: "reachable p \<Longrightarrow> reachable (pause now p)"
| reach_stop: "reachable p \<Longrightarrow> reachable (stop p)"
| reach_updateSettings: "reachable p \<Longrightarrow> reachable (updateSettings settings p)"
| reach_destroy: "reachable p \<Longrightarrow> reachable (destroy p)"

text \<open>
  What \<^verbatim>\<open>initialize()\<close> establishes and no method undoes: the stage nodes exist
  exactly when the processor is initialized, with the filter types, corner frequencies,
  compressor constants and FFT size it wrote.
\<close>

definition biquad_is :: "BiquadFilterType \<Rightarrow> real \<Rightarrow> BiquadFilterNode option \<Rightarrow> bool" where
  "biquad_is t f n = (case n of None \<Rightarrow> False | Some b \<Rightarrow> filter_type b = t \<and> filter_frequency b = f)"

definition compressor_fixed :: "DynamicsCompressorNode option \<Rightarrow> bool" where
  "compressor_fixed n =
     (case n of None \<Rightarrow> False
      | Some c \<Rightarrow> threshold c = - 24 \<and> knee c = 30 \<and> attack c = 0.003 \<and> release c = 0.25)"

definition graph_built :: "AudioProcessor \<Rightarrow> bool" where
  "graph_built p =
     (audioContext p \<noteq> None \<and> gainNode p \<noteq> None \<and>
      biquad_is lowshelf 100 (bassBoostFilter p) \<and> biquad_is peaking 100 (lowFilter p) \<and>
      biquad_is peaking 1000 (midFilter p) \<and> biquad_is peaking 3000 (highFilter p) \<and>
      compressor_fixed (compressor p) \<and>
      analyser p = Some \<lparr> fftSize = 2048, smoothingTimeConstant = 0.8 \<rparr>)"

definition processor_inv :: "AudioProcessor \<Rightarrow> bool" where
  "processor_inv p =
     (if isInitialized p then graph_built p
      else audioContext p = None \<and> sourceNode p = None \<and> audioBuffer p = None)"

section \<open>Notions used to state the properties\<close>

text \<open>The live parameters of the processing stages, in graph order.\<close>

definition stage_parameters ::
  "AudioProcessor \<Rightarrow>
   BiquadFilterNode option \<times> BiquadFilterNode option \<times> BiquadFilterNode option \<times>
   BiquadFilterNode option \<times> DynamicsCompressorNode option \<times> GainNode option" where
  "stage_parameters p =
     (bassBoostFilter p, lowFilter p, midFilter p, highFilter p, compressor p, gainNode p)"

text \<open>
  Clamping as the specification words it (``clamped to the nearest bound'' of \<open>[0,100]\<close>);
  the source has no counterpart. \<open>clamp_settings\<close> clamps every numeric field.
\<close>

definition clamp :: "real \<Rightarrow> real" where
  "clamp x = max 0 (min 100 x)"

definition clamp_settings :: "Settings \<Rightarrow> Settings" where
  "clamp_settings s =
     s\<lparr> bassBoost := clamp (bassBoost s), lowFreq := clamp (lowFreq s),
        midFreq := clamp (midFreq s), highFreq := clamp (highFreq s),
        saturation := clamp (saturation s), compression := clamp (compression s),
        gain := clamp (gain s) \<rparr>"

definition in_range :: "real \<Rightarrow> bool" where
  "in_range x = (0 \<le> x \<and> x \<le> 100)"

text \<open>
  The fields whose mapped value reaches its stage as computed: the four filter gains and
  the output gain.
\<close>

definition gains_in_range :: "Settings \<Rightarrow> bool" where
  "gains_in_range s =
     (in_range (bassBoost s) \<and> in_range (lowFreq s) \<and> in_range (midFreq s) \<and>
      in_range (highFreq s) \<and> in_range (gain s))"

text \<open>The mean of the bin magnitudes of a spectrum frame, as the specification words it.\<close>

definition mean_bins :: "8 word list \<Rightarrow> real" where
  "mean_bins frame = sum_list (map (\<lambda>b. real (unat b)) frame) / real (length frame)"

text \<open>The \<open>i\<close>-th contiguous block of \<open>n\<close> samples, and the mean of absolute values.\<close>

definition block :: "real list \<Rightarrow> nat \<Rightarrow> nat \<Rightarrow> real list" where
  "block xs n i = take n (drop (i * n) xs)"

definition mean_abs :: "real list \<Rightarrow> real" where
  "mean_abs xs = sum_list (map abs xs) / real (length xs)"

subsection \<open>Concrete inputs\<close>

text \<open>The initial settings of the application (\<^verbatim>\<open>App.tsx\<close>).\<close>

definition initial_settings :: Settings where
  "initial_settings =
     \<lparr> bassBoost = 50, lowFreq = 60, midFreq = 50, highFreq = 40, saturation = 30,
       compression = 40, gain = 75, enabled = True \<rparr>"

text \<open>Settings with \<open>saturation\<close> and \<open>compression\<close> beyond 100.\<close>

definition overdriven_settings :: Settings where
  "overdriven_settings = initial_settings\<lparr> saturation := 130, compression := 150 \<rparr>"

definition short_buffer :: AudioBuffer where
  "short_buffer = \<lparr> sampleRate = 44100, channel0 = [1 / 2, - (1 / 2), 1 / 4], other_channels = [] \<rparr>"

definition long_buffer :: AudioBuffer where
  "long_buffer = \<lparr> sampleRate = 8000, channel0 = replicate 8005 (- (1 / 2)), other_channels = [] \<rparr>"

text \<open>A processor after a successful \<^verbatim>\<open>initialize()\<close>, and after loading \<open>long_buffer\<close>.\<close>

definition ready_processor :: AudioProcessor where
  "ready_processor =
     new_AudioProcessor
       \<lparr> audioContext := Some Running,
         gainNode := Some \<lparr> gain_value = 1 \<rparr>,
         bassBoostFilter := Some \<lparr> filter_type = lowshelf, filter_frequency = 100, filter_gain = 0 \<rparr>,
         lowFilter := Some \<lparr> filter_type = peaking, filter_frequency = 100, filter_gain = 0 \<rparr>,
         midFilter := Some \<lparr> filter_type = peaking, filter_frequency = 1000, filter_gain = 0 \<rparr>,
         highFilter := Some \<lparr> filter_type = peaking, filter_frequency = 3000, filter_gain = 0 \<rparr>,
         compressor := Some \<lparr> threshold = - 24, knee = 30, ratio = 12, attack = 0.003, release = 0.25 \<rparr>,
         analyser := Some \<lparr> fftSize = 2048, smoothingTimeConstant = 0.8 \<rparr>,
         isInitialized := True \<rparr>"

definition loaded_processor :: AudioProcessor where
  "loaded_processor = ready_processor\<lparr> audioBuffer := Some long_buffer \<rparr>"

text \<open>\<open>loaded_processor\<close> playing from the start of the buffer, the anchor at clock time \<open>t\<close>.\<close>

definition playing_from_start :: "real \<Rightarrow> AudioProcessor" where
  "playing_from_start t =
     loaded_processor
       \<lparr> sourceNode := Some \<lparr> source_buffer = long_buffer, source_offset = 0 \<rparr>,
         startTime := t, pausedAt := 0 \<rparr>"

section \<open>The state invariant\<close>

text \<open>
  Each guarded assignment of \<^verbatim>\<open>updateSettings\<close>, and \<^verbatim>\<open>stop()\<close>, as a plain
  record update; then \<open>processor_inv\<close> is preserved by every method and so holds in every
  reachable state.
\<close>

lemma update_gain_eq:
  "update_gain s p = p\<lparr> gainNode := map_option (\<lambda>n. n\<lparr> gain_value := gain s / 100 \<rparr>) (gainNode p) \<rparr>"
  by (cases "gainNode p") (simp_all add: update_gain_def)

lemma update_bassBoost_eq:
  "update_bassBoost s p = p\<lparr> bassBoostFilter := map_option (\<lambda>n. n\<lparr> filter_gain := (bassBoost s - 50) * 0.5 \<rparr>) (bassBoostFilter p) \<rparr>"
  by (cases "bassBoostFilter p") (simp_all add: update_bassBoost_def)

lemma update_low_eq:
  "update_low s p = p\<lparr> lowFilter := map_option (\<lambda>n. n\<lparr> filter_gain := (lowFreq s - 50) * 0.48 \<rparr>) (lowFilter p) \<rparr>"
  by (cases "lowFilter p") (simp_all add: update_low_def)

lemma update_mid_eq:
  "update_mid s p = p\<lparr> midFilter := map_option (\<lambda>n. n\<lparr> filter_gain := (midFreq s - 50) * 0.48 \<rparr>) (midFilter p) \<rparr>"
  by (cases "midFilter p") (simp_all add: update_mid_def)

lemma update_high_eq:
  "update_high s p = p\<lparr> highFilter := map_option (\<lambda>n. n\<lparr> filter_gain := (highFreq s - 50) * 0.48 \<rparr>) (highFilter p) \<rparr>"
  by (cases "highFilter p") (simp_all add: update_high_def)

lemma update_compressor_eq:
  "update_compressor s p = p\<lparr> compressor := map_option (\<lambda>n. n\<lparr> ratio := audioParam_clamp 1 20 (1 + (compression s / 100) * 19) \<rparr>) (compressor p) \<rparr>"
  by (cases "compressor p") (simp_all add: update_compressor_def)

lemma updateSettings_eq:
  "updateSettings s p =
     (if \<not> isInitialized p then p
      else p\<lparr> gainNode := map_option (\<lambda>n. n\<lparr> gain_value := gain s / 100 \<rparr>) (gainNode p),
              bassBoostFilter := map_option (\<lambda>n. n\<lparr> filter_gain := (bassBoost s - 50) * 0.5 \<rparr>) (bassBoostFilter p),
              lowFilter := map_option (\<lambda>n. n\<lparr> filter_gain := (lowFreq s - 50) * 0.48 \<rparr>) (lowFilter p),
              midFilter := map_option (\<lambda>n. n\<lparr> filter_gain := (midFreq s - 50) * 0.48 \<rparr>) (midFilter p),
              highFilter := map_option (\<lambda>n. n\<lparr> filter_gain := (highFreq s - 50) * 0.48 \<rparr>) (highFilter p),
              compressor := map_option (\<lambda>n. n\<lparr> ratio := audioParam_clamp 1 20 (1 + (compression s / 100) * 19) \<rparr>) (compressor p) \<rparr>)"
  by (simp add: updateSettings_def update_gain_eq update_bassBoost_eq update_low_eq update_mid_eq
      update_high_eq update_compressor_eq)

lemma biquad_is_gain [simp]:
  "biquad_is t f (map_option (\<lambda>n. n\<lparr> filter_gain := g \<rparr>) n) = biquad_is t f n"
  by (cases n) (simp_all add: biquad_is_def)

lemma compressor_fixed_ratio [simp]:
  "compressor_fixed (map_option (\<lambda>n. n\<lparr> ratio := r \<rparr>) n) = compressor_fixed n"
  by (cases n) (simp_all add: compressor_fixed_def)

lemma graph_built_updateSettings: "graph_built (updateSettings s p) = graph_built p"
  by (simp add: updateSettings_eq graph_built_def)

lemma updateSettings_inv: "processor_inv p \<Longrightarrow> processor_inv (updateSettings s p)"
  by (simp add: processor_inv_def graph_built_updateSettings) (simp add: updateSettings_eq)

lemma initialize_inv: "processor_inv p \<Longrightarrow> initialize ok p = Inr p' \<Longrightarrow> processor_inv p'"
  by (cases "isInitialized p"; cases ok)
     (auto simp: initialize_def processor_inv_def graph_built_def biquad_is_def compressor_fixed_def
      default_biquad_def default_compressor_def default_analyser_def)

lemma stop_eq: "stop p = p\<lparr> sourceNode := None, startTime := 0, pausedAt := 0 \<rparr>"
  by (cases "sourceNode p") (simp_all add: stop_def)

lemma graph_built_stop: "graph_built (stop p) = graph_built p"
  by (simp add: stop_eq graph_built_def)

lemma stop_inv: "processor_inv p \<Longrightarrow> processor_inv (stop p)"
  by (cases "isInitialized p") (simp_all add: processor_inv_def graph_built_stop, simp_all add: stop_eq)

lemma pause_inv: "processor_inv p \<Longrightarrow> processor_inv (pause now p)"
  by (cases "isInitialized p") (simp_all add: pause_def processor_inv_def graph_built_def)

lemma destroy_inv: "processor_inv p \<Longrightarrow> processor_inv (destroy p)"
  by (cases "isInitialized p") (auto simp: destroy_def stop_eq processor_inv_def graph_built_def)

lemma play_inv: "processor_inv p \<Longrightarrow> play now p = Inr p' \<Longrightarrow> processor_inv p'"
  by (cases "isInitialized p")
     (auto simp: play_def stop_eq processor_inv_def graph_built_def Let_def split: if_splits)

lemma loadAudioFile_inv: "processor_inv p \<Longrightarrow> loadAudioFile ok d p = Inr p' \<Longrightarrow> processor_inv p'"
proof -
  assume inv: "processor_inv p" and load: "loadAudioFile ok d p = Inr p'"
  from load obtain p1 b where
    p1: "(if audioContext p = None then initialize ok p else Inr p) = Inr p1"
    and p': "p' = p1\<lparr> audioBuffer := Some b \<rparr>"
    by (auto simp: loadAudioFile_def split: sum.splits option.splits)
  from p1 inv have inv1: "processor_inv p1"
    by (auto split: if_splits intro: initialize_inv)
  from p1 have "isInitialized p1"
    using inv by (auto simp: initialize_def processor_inv_def split: if_splits)
  with inv1 show ?thesis
    by (simp add: p' processor_inv_def graph_built_def)
qed

lemma reachable_inv: "reachable p \<Longrightarrow> processor_inv p"
proof (induction rule: reachable.induct)
  case reach_new
  show ?case by (simp add: processor_inv_def new_AudioProcessor_def)
qed (auto intro: initialize_inv loadAudioFile_inv play_inv pause_inv stop_inv
      updateSettings_inv destroy_inv)

lemma reachable_graph_built: "reachable p \<Longrightarrow> isInitialized p \<Longrightarrow> graph_built p"
  using reachable_inv [of p] by (simp add: processor_inv_def)

lemma initialize_new: "initialize True new_AudioProcessor = Inr ready_processor"
  by (simp add: initialize_def new_AudioProcessor_def ready_processor_def default_gain_def
      default_biquad_def default_compressor_def default_analyser_def)

lemma reachable_ready: "reachable ready_processor"
  using reach_initialize [OF reach_new initialize_new] .

lemma loadAudioFile_ready: "loadAudioFile ok (Some long_buffer) ready_processor = Inr loaded_processor"
  by (simp add: loadAudioFile_def ready_processor_def loaded_processor_def)

lemma reachable_loaded: "reachable loaded_processor"
  using reach_loadAudioFile [OF reachable_ready loadAudioFile_ready] .

lemma isInitialized_ready: "isInitialized ready_processor"
  by (simp add: ready_processor_def)

lemma isInitialized_loaded: "isInitialized loaded_processor"
  by (simp add: loaded_processor_def ready_processor_def)

section \<open>Settings and stage parameters\<close>

text \<open>
  C10. The \<open>saturation\<close> and \<open>enabled\<close> fields have no effect on any stage: two
  settings values that differ only in those fields leave the processor in the same state,
  whatever state it was in.
\<close>

theorem updateSettings_ignores_saturation_enabled:
  "updateSettings (s\<lparr> saturation := x, enabled := e \<rparr>) p = updateSettings s p"
  by (simp add: updateSettings_eq)

text \<open>A call of \<^verbatim>\<open>updateSettings\<close> overwrites whatever an earlier call wrote.\<close>

lemma updateSettings_absorbs: "updateSettings s (updateSettings t p) = updateSettings s p"
  by (simp add: updateSettings_eq option.map_comp comp_def)

lemma updateSettings_after_history:
  "updateSettings s (fold updateSettings history p) = updateSettings s p"
  by (induction history arbitrary: p) (simp_all add: updateSettings_absorbs)

text \<open>
  C9. \<^verbatim>\<open>updateSettings(s)\<close> is idempotent (applying it twice gives the same processor
  state, hence the same stage parameters, as applying it once) and history-independent: the
  stage parameters after \<^verbatim>\<open>updateSettings(s)\<close> are the same whatever sequence of
  earlier \<^verbatim>\<open>updateSettings\<close> calls preceded it.
\<close>

theorem updateSettings_idempotent_history_independent:
  "updateSettings s (updateSettings s p) = updateSettings s p \<and>
   stage_parameters (updateSettings s (fold updateSettings history p)) =
     stage_parameters (updateSettings s p)"
  by (simp add: updateSettings_absorbs updateSettings_after_history)

text \<open>For \<open>compression\<close> within \<open>[0, 100]\<close> the ratio lies within \<open>[1, 20]\<close>.\<close>

lemma ratio_in_range:
  "in_range c \<Longrightarrow> audioParam_clamp 1 20 (1 + (c / 100) * 19) = 1 + (c / 100) * 19"
  by (simp add: in_range_def audioParam_clamp_def max_def min_def)

lemma ratio_in_range_normal:
  "in_range c \<Longrightarrow> audioParam_clamp 1 20 (1 + c * 19 / 100) = 1 + c * 19 / 100"
  using ratio_in_range [of c] by simp

text \<open>The values of the stage parameters after \<^verbatim>\<open>updateSettings\<close>.\<close>

lemma updateSettings_stage_values:
  assumes "reachable p" and "isInitialized p"
  shows "map_option filter_gain (bassBoostFilter (updateSettings s p)) = Some ((bassBoost s - 50) * 0.5) \<and>
         map_option filter_gain (lowFilter (updateSettings s p)) = Some ((lowFreq s - 50) * 0.48) \<and>
         map_option filter_gain (midFilter (updateSettings s p)) = Some ((midFreq s - 50) * 0.48) \<and>
         map_option filter_gain (highFilter (updateSettings s p)) = Some ((highFreq s - 50) * 0.48) \<and>
         map_option ratio (compressor (updateSettings s p)) =
           Some (audioParam_clamp 1 20 (1 + (compression s / 100) * 19)) \<and>
         (in_range (compression s) \<longrightarrow>
            map_option ratio (compressor (updateSettings s p)) = Some (1 + (compression s / 100) * 19)) \<and>
         map_option gain_value (gainNode (updateSettings s p)) = Some (gain s / 100) \<and>
         map_option threshold (compressor (updateSettings s p)) = Some (- 24) \<and>
         map_option knee (compressor (updateSettings s p)) = Some 30 \<and>
         map_option attack (compressor (updateSettings s p)) = Some 0.003 \<and>
         map_option release (compressor (updateSettings s p)) = Some 0.25 \<and>
         map_option threshold (compressor p) = Some (- 24) \<and>
         map_option knee (compressor p) = Some 30 \<and>
         map_option attack (compressor p) = Some 0.003 \<and>
         map_option release (compressor p) = Some 0.25"
proof -
  from assms have g: "graph_built p" by (rule reachable_graph_built)
  then obtain gn bb lo mi hi co where nodes:
    "gainNode p = Some gn" "bassBoostFilter p = Some bb" "lowFilter p = Some lo"
    "midFilter p = Some mi" "highFilter p = Some hi" "compressor p = Some co"
    by (auto simp: graph_built_def biquad_is_def compressor_fixed_def split: option.splits)
  from g nodes have fixed: "threshold co = - 24" "knee co = 30" "attack co = 0.003" "release co = 0.25"
    by (simp_all add: graph_built_def compressor_fixed_def)
  show ?thesis
    using assms(2) nodes fixed by (simp add: updateSettings_eq ratio_in_range_normal)
qed

text \<open>
  C4. On an initialized processor \<^verbatim>\<open>updateSettings\<close> sets the bass shelf gain to
  \<open>(bassBoost - 50) * 0.5\<close>, the low, mid and high peak gains to \<open>(lowFreq - 50) * 0.48\<close>,
  \<open>(midFreq - 50) * 0.48\<close> and \<open>(highFreq - 50) * 0.48\<close>, the output gain to
  \<open>gain / 100\<close> and, for \<open>compression\<close> within \<open>[0, 100]\<close>, the compressor ratio to
  \<open>1 + (compression / 100) * 19\<close> (for any \<open>compression\<close>, to that value brought into
  the ratio's range \<open>[1, 20]\<close>); the compressor's threshold (-24), knee (30), attack
  (0.003) and release (0.25) have those values before and after the call. Nothing else is
  written: the last conjunct gives the whole state after the call as the state before it
  with those six attributes replaced.
\<close>

theorem updateSettings_mapping:
  assumes "reachable p" and "isInitialized p"
  shows "map_option filter_gain (bassBoostFilter (updateSettings s p)) = Some ((bassBoost s - 50) * 0.5) \<and>
         map_option filter_gain (lowFilter (updateSettings s p)) = Some ((lowFreq s - 50) * 0.48) \<and>
         map_option filter_gain (midFilter (updateSettings s p)) = Some ((midFreq s - 50) * 0.48) \<and>
         map_option filter_gain (highFilter (updateSettings s p)) = Some ((highFreq s - 50) * 0.48) \<and>
         map_option ratio (compressor (updateSettings s p)) =
           Some (audioParam_clamp 1 20 (1 + (compression s / 100) * 19)) \<and>
         (in_range (compression s) \<longrightarrow>
            map_option ratio (compressor (updateSettings s p)) = Some (1 + (compression s / 100) * 19)) \<and>
         map_option gain_value (gainNode (updateSettings s p)) = Some (gain s / 100) \<and>
         map_option threshold (compressor (updateSettings s p)) = Some (- 24) \<and>
         map_option knee (compressor (updateSettings s p)) = Some 30 \<and>
         map_option attack (compressor (updateSettings s p)) = Some 0.003 \<and>
         map_option release (compressor (updateSettings s p)) = Some 0.25 \<and>
         map_option threshold (compressor p) = Some (- 24) \<and>
         map_option knee (compressor p) = Some 30 \<and>
         map_option attack (compressor p) = Some 0.003 \<and>
         map_option release (compressor p) = Some 0.25 \<and>
         updateSettings s p =
           p\<lparr> gainNode := map_option (\<lambda>n. n\<lparr> gain_value := gain s / 100 \<rparr>) (gainNode p),
              bassBoostFilter := map_option (\<lambda>n. n\<lparr> filter_gain := (bassBoost s - 50) * 0.5 \<rparr>) (bassBoostFilter p),
              lowFilter := map_option (\<lambda>n. n\<lparr> filter_gain := (lowFreq s - 50) * 0.48 \<rparr>) (lowFilter p),
              midFilter := map_option (\<lambda>n. n\<lparr> filter_gain := (midFreq s - 50) * 0.48 \<rparr>) (midFilter p),
              highFilter := map_option (\<lambda>n. n\<lparr> filter_gain := (highFreq s - 50) * 0.48 \<rparr>) (highFilter p),
              compressor := map_option (\<lambda>n. n\<lparr> ratio := audioParam_clamp 1 20 (1 + (compression s / 100) * 19) \<rparr>) (compressor p) \<rparr>"
proof -
  note vals = updateSettings_stage_values [OF assms, of s]
  have rest: "updateSettings s p =
           p\<lparr> gainNode := map_option (\<lambda>n. n\<lparr> gain_value := gain s / 100 \<rparr>) (gainNode p),
              bassBoostFilter := map_option (\<lambda>n. n\<lparr> filter_gain := (bassBoost s - 50) * 0.5 \<rparr>) (bassBoostFilter p),
              lowFilter := map_option (\<lambda>n. n\<lparr> filter_gain := (lowFreq s - 50) * 0.48 \<rparr>) (lowFilter p),
              midFilter := map_option (\<lambda>n. n\<lparr> filter_gain := (midFreq s - 50) * 0.48 \<rparr>) (midFilter p),
              highFilter := map_option (\<lambda>n. n\<lparr> filter_gain := (highFreq s - 50) * 0.48 \<rparr>) (highFilter p),
              compressor := map_option (\<lambda>n. n\<lparr> ratio := audioParam_clamp 1 20 (1 + (compression s / 100) * 19) \<rparr>) (compressor p) \<rparr>"
    using assms(2) by (simp add: updateSettings_eq)
  from vals rest show ?thesis by blast
qed

theorem updateSettings_mapping_witness:
  "reachable ready_processor \<and> isInitialized ready_processor \<and>
   in_range (compression initial_settings) \<and>
   map_option filter_gain (bassBoostFilter (updateSettings initial_settings ready_processor)) = Some 0 \<and>
   map_option filter_gain (lowFilter (updateSettings initial_settings ready_processor)) = Some 4.8 \<and>
   map_option filter_gain (highFilter (updateSettings initial_settings ready_processor)) = Some (- 4.8) \<and>
   map_option ratio (compressor (updateSettings initial_settings ready_processor)) = Some 8.6 \<and>
   map_option gain_value (gainNode (updateSettings initial_settings ready_processor)) = Some 0.75 \<and>
   map_option threshold (compressor (updateSettings initial_settings ready_processor)) = Some (- 24)"
proof -
  note m = updateSettings_mapping [OF reachable_ready isInitialized_ready, of initial_settings]
  note r2 = m [THEN conjunct2]
  note r3 = r2 [THEN conjunct2]
  note r4 = r3 [THEN conjunct2]
  note r5 = r4 [THEN conjunct2]
  note r6 = r5 [THEN conjunct2]
  note r7 = r6 [THEN conjunct2]
  note r8 = r7 [THEN conjunct2]
  have c: "in_range (compression initial_settings)"
    by (simp add: in_range_def initial_settings_def)
  from m [THEN conjunct1] r2 [THEN conjunct1] r4 [THEN conjunct1]
    r6 [THEN conjunct1, rule_format, OF c] r7 [THEN conjunct1] r8 [THEN conjunct1] c
  show ?thesis
    by (simp add: reachable_ready isInitialized_ready initial_settings_def)
qed

section \<open>Transport\<close>

text \<open>
  C8. \<^verbatim>\<open>play()\<close> with no buffer loaded is a silent no-op: it returns normally (no
  error) and the processor state is the one before the call.
\<close>

theorem play_without_buffer_is_noop: "audioBuffer p = None \<Longrightarrow> play now p = Inr p"
  by (simp add: play_def)

theorem play_without_buffer_is_noop_witness:
  "audioBuffer ready_processor = None \<and> play 3 ready_processor = Inr ready_processor"
proof -
  have h: "audioBuffer ready_processor = None"
    by (simp add: ready_processor_def new_AudioProcessor_def)
  show ?thesis using h play_without_buffer_is_noop [OF h, of 3] by simp
qed

section \<open>Metering\<close>

lemma level_loop_sum:
  "level_loop xs i acc = acc + sum_list (map (\<lambda>b. real (unat b)) (drop i xs))"
proof (induction xs i acc rule: level_loop.induct)
  case (1 dataArray i acc)
  show ?case
  proof (cases "i < length dataArray")
    case True
    then have "drop i dataArray = dataArray ! i # drop (Suc i) dataArray"
      by (simp add: Cons_nth_drop_Suc)
    with True "1" show ?thesis by simp
  next
    case False
    then show ?thesis by simp
  qed
qed

lemma getByteFrequencyData_full:
  "length frame = n \<Longrightarrow> getByteFrequencyData frame (new_Uint8Array n) = frame"
  by (simp add: getByteFrequencyData_def new_Uint8Array_def)

lemma getLevel_mean:
  assumes "analyser p = Some a" and "length frame = frequencyBinCount a" and "0 < frequencyBinCount a"
  shows "getLevel frame p = Fin (mean_bins frame / 255 * 100)"
proof -
  from assms(2,3) have "frame \<noteq> []" by auto
  with assms(1,2) show ?thesis
    by (simp add: getLevel_def getByteFrequencyData_full level_loop_sum js_div_def
        js_percent_of_255_def mean_bins_def Let_def del: level_loop.simps)
qed

lemma sum_bins_bounds:
  "0 \<le> sum_list (map (\<lambda>b. real (unat b)) (frame :: 8 word list)) \<and>
   sum_list (map (\<lambda>b. real (unat b)) frame) \<le> 255 * real (length frame)"
proof (induction frame)
  case Nil
  show ?case by simp
next
  case (Cons b frame)
  have "unat b < 2 ^ 8" using unsigned_less [of b] by simp
  then have "unat b \<le> 255" by simp
  then have "real (unat b) \<le> real 255" by (simp only: of_nat_le_iff)
  then have "real (unat b) \<le> 255" by linarith
  moreover have "0 \<le> real (unat b)" by (rule of_nat_0_le_iff)
  ultimately show ?case using Cons by (simp add: algebra_simps)
qed

lemma mean_bins_bounds: "0 \<le> mean_bins frame \<and> mean_bins frame \<le> 255"
proof (cases "frame = []")
  case True
  then show ?thesis by (simp add: mean_bins_def)
next
  case False
  then have pos: "0 < real (length frame)" by simp
  from sum_bins_bounds [of frame] pos show ?thesis
    by (simp add: mean_bins_def divide_le_eq mult.commute)
qed

lemma mean_bins_replicate: "0 < n \<Longrightarrow> mean_bins (replicate n b) = real (unat b)"
  by (simp add: mean_bins_def sum_list_replicate)

text \<open>
  C7. For a spectrum frame of the analyser (one byte, 0..255, per frequency bin),
  \<^verbatim>\<open>getLevel()\<close> returns \<open>mean(bin values) / 255 * 100\<close>, a finite number within
  \<open>[0,100]\<close>; the all-zero frame gives 0 and the all-255 frame gives 100.
\<close>

theorem getLevel_percentage:
  assumes "reachable p" and "isInitialized p" and "analyser p = Some a"
    and "length frame = frequencyBinCount a"
  shows "getLevel frame p = Fin (mean_bins frame / 255 * 100) \<and>
         0 \<le> mean_bins frame / 255 * 100 \<and> mean_bins frame / 255 * 100 \<le> 100 \<and>
         getLevel (replicate (frequencyBinCount a) 0) p = Fin 0 \<and>
         getLevel (replicate (frequencyBinCount a) 255) p = Fin 100"
proof -
  from assms(1,2) have "graph_built p" by (rule reachable_graph_built)
  with assms(3) have a: "a = \<lparr> fftSize = 2048, smoothingTimeConstant = 0.8 \<rparr>"
    by (simp add: graph_built_def)
  then have pos: "0 < frequencyBinCount a" by (simp add: frequencyBinCount_def)
  have level: "getLevel frame p = Fin (mean_bins frame / 255 * 100)"
    using assms(3,4) pos by (rule getLevel_mean)
  have zero: "getLevel (replicate (frequencyBinCount a) 0) p = Fin 0"
    using getLevel_mean [OF assms(3) _ pos, of "replicate (frequencyBinCount a) 0"] pos
    by (simp add: mean_bins_replicate)
  have full: "getLevel (replicate (frequencyBinCount a) 255) p = Fin 100"
    using getLevel_mean [OF assms(3) _ pos, of "replicate (frequencyBinCount a) 255"] pos
    by (simp add: mean_bins_replicate)
  from mean_bins_bounds [of frame] have "0 \<le> mean_bins frame / 255 * 100" "mean_bins frame / 255 * 100 \<le> 100"
    by simp_all
  with level zero full show ?thesis by simp
qed

theorem getLevel_percentage_witness:
  "reachable ready_processor \<and> isInitialized ready_processor \<and>
   analyser ready_processor = Some \<lparr> fftSize = 2048, smoothingTimeConstant = 0.8 \<rparr> \<and>
   length (replicate 1024 (51 :: 8 word)) = frequencyBinCount \<lparr> fftSize = 2048, smoothingTimeConstant = 0.8 \<rparr> \<and>
   getLevel (replicate 1024 51) ready_processor = Fin 20 \<and>
   getLevel (replicate 1024 0) ready_processor = Fin 0 \<and>
   getLevel (replicate 1024 255) ready_processor = Fin 100"
proof -
  have a: "analyser ready_processor = Some \<lparr> fftSize = 2048, smoothingTimeConstant = 0.8 \<rparr>"
    by (simp add: ready_processor_def new_AudioProcessor_def)
  have n: "length (replicate 1024 (51 :: 8 word)) = frequencyBinCount \<lparr> fftSize = 2048, smoothingTimeConstant = 0.8 \<rparr>"
    by (simp add: frequencyBinCount_def)
  show ?thesis
    using getLevel_percentage [OF reachable_ready isInitialized_ready a n] a n
    by (simp add: reachable_ready isInitialized_ready mean_bins_replicate frequencyBinCount_def)
qed

section \<open>Waveform extraction\<close>

text \<open>The two loops in closed form.\<close>

lemma block_loop_sum:
  "block_loop b bs i j acc =
     acc + (\<Sum>k = j..<bs. if i * bs + k < buffer_length b then \<bar>channel0 b ! (i * bs + k)\<bar> else 0)"
proof (induction b bs i j acc rule: block_loop.induct)
  case (1 buf blockSize i j acc)
  show ?case
  proof (cases "j < blockSize")
    case True
    with "1" show ?thesis
      by (simp add: sum.atLeast_Suc_lessThan Let_def)
  next
    case False
    then show ?thesis by simp
  qed
qed

lemma wave_loop_eq:
  "length wd = samples \<Longrightarrow> i \<le> samples \<Longrightarrow>
   wave_loop b samples bs i wd =
     take i wd @ map (\<lambda>k. js_div (block_loop b bs k 0 0) (real bs)) [i..<samples]"
proof (induction b samples bs i wd rule: wave_loop.induct)
  case (1 buf samples blockSize i waveData)
  show ?case
  proof (cases "i < samples")
    case True
    let ?v = "js_div (block_loop buf blockSize i 0 0) (real blockSize)"
    from True "1.prems" have len: "i < length waveData" by simp
    have "wave_loop buf samples blockSize i waveData =
            wave_loop buf samples blockSize (i + 1) (waveData[i := ?v])"
      using True by simp
    also have "\<dots> = take (i + 1) (waveData[i := ?v]) @
                   map (\<lambda>k. js_div (block_loop buf blockSize k 0 0) (real blockSize)) [i + 1..<samples]"
      using True "1.prems" by (intro "1.IH") simp_all
    also have "take (i + 1) (waveData[i := ?v]) = take i waveData @ [?v]"
      using len by (simp add: take_Suc_conv_app_nth)
    finally show ?thesis
      using True by (simp add: upt_conv_Cons del: wave_loop.simps block_loop.simps)
  next
    case False
    with "1.prems" show ?thesis by simp
  qed
qed

lemma generateWaveform_eq:
  "generateWaveform b =
     map (\<lambda>k. js_div (block_loop b (buffer_length b div 800) k 0 0) (real (buffer_length b div 800)))
       [0..<800]"
  by (simp add: generateWaveform_def Let_def wave_loop_eq del: wave_loop.simps block_loop.simps)

lemma length_generateWaveform: "length (generateWaveform b) = 800"
  by (simp add: generateWaveform_eq del: block_loop.simps)

lemma generateWaveform_short:
  "buffer_length b < 800 \<Longrightarrow> generateWaveform b = replicate 800 NaN"
  by (simp add: generateWaveform_eq block_loop_sum js_div_def map_replicate_const
      del: block_loop.simps)

lemma sum_block:
  assumes "i * n + n \<le> length xs"
  shows "(\<Sum>k = 0..<n. if i * n + k < length xs then \<bar>xs ! (i * n + k)\<bar> else 0) =
         sum_list (map abs (block xs n i))"
proof -
  have len: "length (block xs n i) = n"
    using assms by (simp add: block_def)
  have "sum_list (map abs (block xs n i)) = (\<Sum>k = 0..<n. map abs (block xs n i) ! k)"
    using len by (simp add: sum_list_sum_nth)
  also have "\<dots> = (\<Sum>k = 0..<n. if i * n + k < length xs then \<bar>xs ! (i * n + k)\<bar> else 0)"
  proof (rule sum.cong)
    fix k
    assume "k \<in> {0..<n}"
    then have k: "k < n" by simp
    with assms have "i * n + k < length xs" by simp
    with k len show "map abs (block xs n i) ! k =
        (if i * n + k < length xs then \<bar>xs ! (i * n + k)\<bar> else 0)"
      by (simp add: block_def)
  qed simp
  finally show ?thesis by simp
qed

lemma block_within:
  assumes "i < 800" and "800 \<le> length xs"
  shows "i * (length xs div 800) + length xs div 800 \<le> length xs"
proof -
  have "i * (length xs div 800) + length xs div 800 = Suc i * (length xs div 800)" by simp
  also have "\<dots> \<le> 800 * (length xs div 800)"
    using assms(1) by (intro mult_le_mono1) simp
  also have "\<dots> \<le> length xs" by simp
  finally show ?thesis .
qed

lemma generateWaveform_nth:
  assumes "800 \<le> buffer_length b" and "i < 800"
  shows "generateWaveform b ! i = Fin (mean_abs (block (channel0 b) (buffer_length b div 800) i))"
proof -
  let ?n = "buffer_length b div 800"
  from assms(1) have pos: "0 < ?n" by (simp add: div_greater_zero_iff)
  have within: "i * ?n + ?n \<le> length (channel0 b)"
    using block_within [OF assms(2), of "channel0 b"] assms(1) by (simp add: buffer_length_def)
  then have len: "length (block (channel0 b) ?n i) = ?n"
    by (simp add: block_def)
  have "generateWaveform b ! i = js_div (block_loop b ?n i 0 0) (real ?n)"
    using assms(2) by (simp add: generateWaveform_eq del: block_loop.simps)
  also have "block_loop b ?n i 0 0 = sum_list (map abs (block (channel0 b) ?n i))"
    using sum_block [OF within] unfolding block_loop_sum buffer_length_def by simp
  finally show ?thesis
    using pos len by (simp add: js_div_def mean_abs_def)
qed


lemma block_take: "i < k \<Longrightarrow> block (take (k * n) xs) n i = block xs n i"
proof -
  assume "i < k"
  then have "Suc i * n \<le> k * n" by (intro mult_le_mono1) simp
  then have "n \<le> k * n - i * n" by simp
  then show ?thesis by (simp add: block_def drop_take min_absorb1)
qed

text \<open>
  C5. For a buffer whose first channel has at least 800 frames, the envelope has exactly 800
  entries, entry \<open>i\<close> is the mean of the absolute values of the \<open>i\<close>-th contiguous
  block of \<open>floor(length / 800)\<close> first-channel samples, and the frames beyond
  \<open>800 * blockSize\<close> contribute to no entry: a buffer of the same length that agrees on
  the first \<open>800 * blockSize\<close> frames has the same envelope.
\<close>

theorem generateWaveform_blocks:
  assumes "800 \<le> buffer_length b"
  shows "length (generateWaveform b) = 800 \<and>
         (\<forall>i < 800. generateWaveform b ! i =
            Fin (mean_abs (block (channel0 b) (buffer_length b div 800) i))) \<and>
         (\<forall>b'. buffer_length b' = buffer_length b \<and>
               take (800 * (buffer_length b div 800)) (channel0 b') =
               take (800 * (buffer_length b div 800)) (channel0 b)
               \<longrightarrow> generateWaveform b' = generateWaveform b)"
proof (intro conjI allI impI)
  show "length (generateWaveform b) = 800" by (rule length_generateWaveform)
next
  fix i :: nat
  assume "i < 800"
  with assms show "generateWaveform b ! i = Fin (mean_abs (block (channel0 b) (buffer_length b div 800) i))"
    by (rule generateWaveform_nth)
next
  fix b'
  let ?n = "buffer_length b div 800"
  assume same: "buffer_length b' = buffer_length b \<and>
                take (800 * ?n) (channel0 b') = take (800 * ?n) (channel0 b)"
  then have len': "800 \<le> buffer_length b'" and n': "buffer_length b' div 800 = ?n"
    using assms by simp_all
  from same have prefix: "take (800 * ?n) (channel0 b') = take (800 * ?n) (channel0 b)" ..
  show "generateWaveform b' = generateWaveform b"
  proof (rule nth_equalityI)
    show "length (generateWaveform b') = length (generateWaveform b)"
      by (simp only: length_generateWaveform)
  next
    fix i
    assume "i < length (generateWaveform b')"
    then have i: "i < 800" by (simp only: length_generateWaveform)
    have "block (channel0 b') ?n i = block (take (800 * ?n) (channel0 b')) ?n i"
      using i by (rule block_take [symmetric])
    also have "\<dots> = block (take (800 * ?n) (channel0 b)) ?n i"
      by (simp only: prefix)
    also have "\<dots> = block (channel0 b) ?n i"
      using i by (rule block_take)
    finally have "block (channel0 b') ?n i = block (channel0 b) ?n i" .
    then show "generateWaveform b' ! i = generateWaveform b ! i"
      by (simp only: generateWaveform_nth [OF len' i] generateWaveform_nth [OF assms i] n')
  qed
qed

lemma buffer_length_long: "buffer_length long_buffer = 8005"
  by (simp add: buffer_length_def long_buffer_def)

lemma block_replicate:
  "i * n + n \<le> m \<Longrightarrow> block (replicate m x) n i = replicate n x"
  by (simp add: block_def min_def)

lemma mean_abs_replicate: "0 < n \<Longrightarrow> mean_abs (replicate n x) = \<bar>x\<bar>"
  by (simp add: mean_abs_def sum_list_replicate)

theorem generateWaveform_blocks_witness:
  "800 \<le> buffer_length long_buffer \<and> length (generateWaveform long_buffer) = 800 \<and>
   generateWaveform long_buffer ! 799 = Fin (1 / 2) \<and>
   generateWaveform (long_buffer\<lparr> channel0 := replicate 8000 (- (1 / 2)) @ [1, 1, 1, 1, 1] \<rparr>) =
     generateWaveform long_buffer"
proof -
  let ?b' = "long_buffer\<lparr> channel0 := replicate 8000 (- (1 / 2)) @ [1, 1, 1, 1, 1] \<rparr>"
  have h: "800 \<le> buffer_length long_buffer" by (simp add: buffer_length_long)
  note blocks = generateWaveform_blocks [OF h]
  have n: "buffer_length long_buffer div 800 = 10" by (simp add: buffer_length_long)
  have "block (channel0 long_buffer) 10 799 = replicate 10 (- (1 / 2))"
    by (simp add: long_buffer_def block_replicate)
  then have m: "mean_abs (block (channel0 long_buffer) 10 799) = 1 / 2"
    by (simp add: mean_abs_replicate)
  have same: "buffer_length ?b' = buffer_length long_buffer \<and>
              take (800 * (buffer_length long_buffer div 800)) (channel0 ?b') =
              take (800 * (buffer_length long_buffer div 800)) (channel0 long_buffer)"
    unfolding n by (simp add: buffer_length_def long_buffer_def)
  have len: "length (generateWaveform long_buffer) = 800"
    using blocks by (rule conjunct1)
  have "generateWaveform long_buffer ! 799 =
          Fin (mean_abs (block (channel0 long_buffer) (buffer_length long_buffer div 800) 799))"
    using blocks [THEN conjunct2, THEN conjunct1, rule_format, of 799] by simp
  then have last: "generateWaveform long_buffer ! 799 = Fin (1 / 2)"
    by (simp only: n m)
  have tail: "generateWaveform ?b' = generateWaveform long_buffer"
    using blocks [THEN conjunct2, THEN conjunct2, rule_format, of ?b'] same by blast
  from h len last tail show ?thesis by (intro conjI)
qed

text \<open>
  C3. A buffer shorter than 800 frames has block size 0. The source has no branch for it:
  the inner loop does not run and \<^verbatim>\<open>sum / blockSize\<close> is \<open>0 / 0\<close>. On the
  three-frame \<open>short_buffer\<close> the envelope has 800 entries, and every one of them is
  \<^verbatim>\<open>NaN\<close>, not a finite number.
\<close>

theorem generateWaveform_short_buffer_NaN:
  "buffer_length short_buffer = 3 \<and> generateWaveform short_buffer = replicate 800 NaN \<and>
   \<not> is_finite (generateWaveform short_buffer ! 0)"
proof -
  have len: "buffer_length short_buffer = 3" by (simp add: buffer_length_def short_buffer_def)
  then have "generateWaveform short_buffer = replicate 800 NaN"
    by (intro generateWaveform_short) simp
  with len show ?thesis by (simp add: is_finite_def)
qed

section \<open>Out-of-range settings\<close>

lemma clamp_in_range: "in_range x \<Longrightarrow> clamp x = x"
  by (simp add: clamp_def in_range_def)

text \<open>
  The ratio's range \<open>[1, 20]\<close> is the image of \<open>[0, 100]\<close> under the (increasing)
  ratio mapping, so confining the ratio amounts to clamping \<open>compression\<close>.
\<close>

lemma ratio_of_clamped:
  "audioParam_clamp 1 20 (1 + (clamp c / 100) * 19) = audioParam_clamp 1 20 (1 + (c / 100) * 19)"
proof -
  consider "c < 0" | "0 \<le> c \<and> c \<le> 100" | "100 < c" by linarith
  then show ?thesis
  proof cases
    case 1
    then have "1 + (c / 100) * 19 < 1" by simp
    with 1 show ?thesis by (simp add: clamp_def audioParam_clamp_def)
  next
    case 2
    then show ?thesis by (simp add: clamp_def)
  next
    case 3
    then have "20 < 1 + (c / 100) * 19" by simp
    with 3 show ?thesis by (simp add: clamp_def audioParam_clamp_def)
  qed
qed

lemma ratio_of_clamped_normal:
  "audioParam_clamp 1 20 (1 + clamp c * 19 / 100) = audioParam_clamp 1 20 (1 + c * 19 / 100)"
  using ratio_of_clamped [of c] by simp

lemma updateSettings_clamped_gains_in_range:
  "gains_in_range s \<Longrightarrow> updateSettings (clamp_settings s) p = updateSettings s p"
  by (simp add: updateSettings_eq clamp_settings_def gains_in_range_def clamp_in_range
      ratio_of_clamped_normal)

text \<open>
  C2, as the code has it. \<^verbatim>\<open>updateSettings\<close> clamps no settings field. For every
  settings value whose \<open>bassBoost\<close>, \<open>lowFreq\<close>, \<open>midFreq\<close>, \<open>highFreq\<close> and
  \<open>gain\<close> lie within \<open>[0,100]\<close>, the resulting stage parameters equal those obtained
  from the same settings with every field clamped to \<open>[0,100]\<close>, whatever the values of
  \<open>saturation\<close> (never read) and \<open>compression\<close> (the ratio is confined to
  \<open>[1, 20]\<close> by the platform).
\<close>

theorem updateSettings_clamped_when_gains_in_range:
  assumes "gains_in_range s"
  shows "stage_parameters (updateSettings s p) =
         stage_parameters (updateSettings (clamp_settings s) p)"
  using assms by (simp add: updateSettings_clamped_gains_in_range)

theorem updateSettings_clamped_when_gains_in_range_witness:
  "gains_in_range overdriven_settings \<and>
   clamp_settings overdriven_settings = initial_settings\<lparr> saturation := 100, compression := 100 \<rparr> \<and>
   map_option ratio (compressor (updateSettings overdriven_settings ready_processor)) = Some 20 \<and>
   stage_parameters (updateSettings overdriven_settings ready_processor) =
     stage_parameters (updateSettings (clamp_settings overdriven_settings) ready_processor)"
proof -
  have g: "gains_in_range overdriven_settings"
    by (simp add: gains_in_range_def in_range_def overdriven_settings_def initial_settings_def)
  have c: "clamp_settings overdriven_settings =
             initial_settings\<lparr> saturation := 100, compression := 100 \<rparr>"
    by (simp add: clamp_settings_def overdriven_settings_def initial_settings_def clamp_def)
  have r: "map_option ratio (compressor (updateSettings overdriven_settings ready_processor)) = Some 20"
    by (simp add: updateSettings_eq ready_processor_def new_AudioProcessor_def
        overdriven_settings_def initial_settings_def audioParam_clamp_def)
  from g c r updateSettings_clamped_when_gains_in_range [OF g, of ready_processor]
  show ?thesis by (intro conjI)
qed

text \<open>
  C2, as stated, fails: with \<open>bassBoost = 150\<close> the mapping is evaluated on 150 and the
  bass shelf gain is 50, whereas the clamped value 100 gives 25.
\<close>

theorem updateSettings_does_not_clamp:
  "clamp_settings (initial_settings\<lparr> bassBoost := 150 \<rparr>) = initial_settings\<lparr> bassBoost := 100 \<rparr> \<and>
   map_option filter_gain (bassBoostFilter (updateSettings (initial_settings\<lparr> bassBoost := 150 \<rparr>) ready_processor)) = Some 50 \<and>
   map_option filter_gain (bassBoostFilter (updateSettings (initial_settings\<lparr> bassBoost := 100 \<rparr>) ready_processor)) = Some 25 \<and>
   stage_parameters (updateSettings (initial_settings\<lparr> bassBoost := 150 \<rparr>) ready_processor) \<noteq>
   stage_parameters (updateSettings (clamp_settings (initial_settings\<lparr> bassBoost := 150 \<rparr>)) ready_processor)"
proof -
  have c: "clamp_settings (initial_settings\<lparr> bassBoost := 150 \<rparr>) = initial_settings\<lparr> bassBoost := 100 \<rparr>"
    by (simp add: clamp_settings_def initial_settings_def clamp_def)
  have a: "map_option filter_gain (bassBoostFilter (updateSettings (initial_settings\<lparr> bassBoost := 150 \<rparr>) ready_processor)) = Some 50"
    by (simp add: updateSettings_eq ready_processor_def new_AudioProcessor_def)
  have b: "map_option filter_gain (bassBoostFilter (updateSettings (initial_settings\<lparr> bassBoost := 100 \<rparr>) ready_processor)) = Some 25"
    by (simp add: updateSettings_eq ready_processor_def new_AudioProcessor_def)
  have "bassBoostFilter (updateSettings (initial_settings\<lparr> bassBoost := 150 \<rparr>) ready_processor) \<noteq>
        bassBoostFilter (updateSettings (initial_settings\<lparr> bassBoost := 100 \<rparr>) ready_processor)"
    using a b by auto
  then have d: "stage_parameters (updateSettings (initial_settings\<lparr> bassBoost := 150 \<rparr>) ready_processor) \<noteq>
   stage_parameters (updateSettings (clamp_settings (initial_settings\<lparr> bassBoost := 150 \<rparr>)) ready_processor)"
    unfolding c by (simp add: stage_parameters_def)
  from c a b d show ?thesis by (intro conjI)
qed

section \<open>Playback position\<close>

lemma isPlaying_stop: "\<not> isPlaying (stop p)"
  by (simp add: isPlaying_def stop_eq)

lemma getCurrentTime_stop:
  "getCurrentTime now (stop p) = (if audioContext p = None then 0 else now)"
  by (simp add: getCurrentTime_def stop_eq)

text \<open>
  \<^verbatim>\<open>play()\<close> calls \<^verbatim>\<open>stop()\<close> before it reads \<^verbatim>\<open>pausedAt\<close>, and
  \<^verbatim>\<open>stop()\<close> has just set that field to 0: the offset is always 0.
\<close>

lemma play_restarts:
  assumes "graph_built p" and "audioBuffer p = Some b"
  shows "play now p =
           Inr (p\<lparr> sourceNode := Some \<lparr> source_buffer = b, source_offset = 0 \<rparr>,
                   startTime := now, pausedAt := 0 \<rparr>)"
  using assms
  by (auto simp: play_def stop_eq graph_built_def biquad_is_def compressor_fixed_def
      split: option.splits)

text \<open>In a reachable state the stage nodes are never null where \<^verbatim>\<open>play()\<close> connects them.\<close>

lemma play_returns: "reachable p \<Longrightarrow> \<exists>p'. play now p = Inr p'"
proof (cases "audioContext p = None \<or> audioBuffer p = None")
  case True
  then show ?thesis by (simp add: play_def)
next
  case False
  assume "reachable p"
  then have "processor_inv p" by (rule reachable_inv)
  with False have "graph_built p"
    by (cases "isInitialized p") (simp_all add: processor_inv_def)
  moreover from False obtain b where "audioBuffer p = Some b" by auto
  ultimately show ?thesis by (simp add: play_restarts)
qed

lemma graph_built_loaded: "graph_built loaded_processor"
  using reachable_graph_built [OF reachable_loaded isInitialized_loaded] .

lemma play_loaded: "play t loaded_processor = Inr (playing_from_start t)"
  using play_restarts [OF graph_built_loaded, of long_buffer t]
  by (simp add: loaded_processor_def playing_from_start_def)

lemma pause_playing:
  "pause t' (playing_from_start t) = loaded_processor\<lparr> startTime := t, pausedAt := t' - t \<rparr>"
  by (simp add: pause_def playing_from_start_def loaded_processor_def ready_processor_def
      new_AudioProcessor_def)

lemma play_paused:
  "play t'' (pause t' (playing_from_start t)) = Inr (playing_from_start t'')"
proof -
  have g: "graph_built (loaded_processor\<lparr> startTime := t, pausedAt := t' - t \<rparr>)"
    using graph_built_loaded by (simp add: graph_built_def)
  have b: "audioBuffer (loaded_processor\<lparr> startTime := t, pausedAt := t' - t \<rparr>) = Some long_buffer"
    by (simp add: loaded_processor_def)
  show ?thesis
    unfolding pause_playing using play_restarts [OF g b, of t'']
    by (simp add: playing_from_start_def)
qed

lemma audioContext_loaded: "audioContext loaded_processor = Some Running"
  by (simp add: loaded_processor_def ready_processor_def)

lemma audioContext_playing: "audioContext (playing_from_start t) = Some Running"
  by (simp add: playing_from_start_def audioContext_loaded)

text \<open>
  C1. \<^verbatim>\<open>getCurrentTime()\<close> does not look at the transport state: it is
  \<open>now - anchor\<close> whenever the context exists. While playing (anchor 1, clock 4) it is 3,
  as claimed. After \<^verbatim>\<open>stop()\<close> the anchor is 0, so at clock 5 it is 5, not 0
  (\<^verbatim>\<open>isPlaying()\<close> is false, as claimed). After \<^verbatim>\<open>pause()\<close> at clock 3 the
  stored offset is 2, yet at clock 5 it is 4.
\<close>

theorem getCurrentTime_ignores_transport_state:
  "play 1 loaded_processor = Inr (playing_from_start 1) \<and>
   isPlaying (playing_from_start 1) \<and>
   getCurrentTime 4 (playing_from_start 1) = 3 \<and>
   \<not> isPlaying (stop (playing_from_start 1)) \<and>
   getCurrentTime 5 (stop (playing_from_start 1)) = 5 \<and>
   \<not> isPlaying (pause 3 (playing_from_start 1)) \<and>
   pausedAt (pause 3 (playing_from_start 1)) = 2 \<and>
   getCurrentTime 5 (pause 3 (playing_from_start 1)) = 4"
proof -
  have "isPlaying (playing_from_start 1)"
    by (simp add: isPlaying_def playing_from_start_def)
  moreover have "getCurrentTime 4 (playing_from_start 1) = 3"
    by (simp add: getCurrentTime_def audioContext_playing) (simp add: playing_from_start_def)
  moreover have "getCurrentTime 5 (stop (playing_from_start 1)) = 5"
    by (simp add: getCurrentTime_stop audioContext_playing)
  moreover have "\<not> isPlaying (pause 3 (playing_from_start 1))"
    "pausedAt (pause 3 (playing_from_start 1)) = 2"
    "getCurrentTime 5 (pause 3 (playing_from_start 1)) = 4"
    by (simp_all add: pause_playing isPlaying_def getCurrentTime_def audioContext_loaded)
       (simp add: loaded_processor_def ready_processor_def new_AudioProcessor_def)
  ultimately show ?thesis
    by (simp add: play_loaded isPlaying_stop)
qed

text \<open>
  C6. Play at clock 0, pause at clock 2, play again at clock 3. \<^verbatim>\<open>pause()\<close> stores
  the offset 2 and discards the source node, as claimed. The second \<^verbatim>\<open>play()\<close>
  starts the fresh source node at offset 0 with anchor 3 (not at offset 2 with anchor 1):
  playback restarts from the beginning of the buffer.
\<close>

theorem play_after_pause_restarts:
  "play 0 loaded_processor = Inr (playing_from_start 0) \<and>
   pausedAt (pause 2 (playing_from_start 0)) = 2 \<and>
   \<not> isPlaying (pause 2 (playing_from_start 0)) \<and>
   play 3 (pause 2 (playing_from_start 0)) = Inr (playing_from_start 3) \<and>
   map_option source_offset (sourceNode (playing_from_start 3)) = Some 0 \<and>
   startTime (playing_from_start 3) = 3 \<and>
   getCurrentTime 3 (playing_from_start 3) = 0"
proof -
  have "pausedAt (pause 2 (playing_from_start 0)) = 2"
    "\<not> isPlaying (pause 2 (playing_from_start 0))"
    by (simp_all add: pause_playing isPlaying_def)
       (simp add: loaded_processor_def ready_processor_def new_AudioProcessor_def)
  moreover have "map_option source_offset (sourceNode (playing_from_start 3)) = Some 0"
    "startTime (playing_from_start 3) = 3"
    "getCurrentTime 3 (playing_from_start 3) = 0"
    by (simp_all add: playing_from_start_def getCurrentTime_def audioContext_loaded)
  ultimately show ?thesis
    by (simp add: play_loaded play_paused)
qed

end
